theory Spec2Isabelle
  imports Complex_Main "HOL-Library.Multiset"
begin

section \<open>Secret Santa sample: terms of the objective\<close>

text \<open>
  Modelled from the spec: the class \<open>Term\<close> of the optimisation SDK, which the notebook
  imports and does not define. A Term is a coefficient \<open>c\<close> (the Python floats
  \<open>1.0\<close>, \<open>2.0\<close>, \<open>-2.0\<close>, here reals) and a list \<open>indices\<close> of variable ids
  (Python ints, unbounded). Constructing one checks nothing.
\<close>

record Term =
  c :: real
  indices :: "int list"

text \<open>
  \<^verbatim>\<open>
  def build_terms(i: int, j: int):
      terms = []
      terms.append(Term(c = 1.0, indices = [i, i]))   # x(i)^2
      terms.append(Term(c = 1.0, indices = [j, j]))   # x(j)^2
      terms.append(Term(c = 2.0, indices = [i, j]))   # 2x(i)x(j)
      terms.append(Term(c = -2.0, indices = [i]))     # -2x(i)
      terms.append(Term(c = -2.0, indices = [j]))     # -2x(j)
      terms.append(Term(c = 1.0, indices = []))       # +1
      return terms
  \<close>
  The local list starts empty and grows by six appends.
\<close>

definition build_terms :: "int \<Rightarrow> int \<Rightarrow> Term list" where
  "build_terms i j =
     ((((([] @ [\<lparr>c = 1, indices = [i, i]\<rparr>])
           @ [\<lparr>c = 1, indices = [j, j]\<rparr>])
          @ [\<lparr>c = 2, indices = [i, j]\<rparr>])
         @ [\<lparr>c = - 2, indices = [i]\<rparr>])
        @ [\<lparr>c = - 2, indices = [j]\<rparr>])
       @ [\<lparr>c = 1, indices = []\<rparr>]"

text \<open>
  The assembled objective of the notebook:
  \<^verbatim>\<open>
  terms = build_terms(0, 1) + build_terms(2, 3) + build_terms(4, 5)
  terms = terms + build_terms(2, 4) + build_terms(0, 5) + build_terms(1, 3)
  \<close>
\<close>

definition terms :: "Term list" where
  "terms =
     (((build_terms 0 1 @ build_terms 2 3) @ build_terms 4 5)
        @ build_terms 2 4) @ build_terms 0 5 @ build_terms 1 3"

text \<open>
  Modelled from the spec: the value of a list of Terms at an assignment of the variables.
  The notebook's introduction gives the objective as the sum over the terms of
  \<open>c\<^sub>k\<close> times the product of the indexed variables; a Term with no index contributes
  its coefficient.
\<close>

definition eval_term :: "(int \<Rightarrow> real) \<Rightarrow> Term \<Rightarrow> real" where
  "eval_term x t = c t * prod_list (map x (indices t))"

definition eval_terms :: "(int \<Rightarrow> real) \<Rightarrow> Term list \<Rightarrow> real" where
  "eval_terms x ts = sum_list (map (eval_term x) ts)"

text \<open>An assignment is binary on a variable when it gives it 0 or 1.\<close>

definition binary :: "(int \<Rightarrow> real) \<Rightarrow> int \<Rightarrow> bool" where
  "binary x k = (x k = 0 \<or> x k = 1)"

text \<open>
  The six constraints of the notebook (rows, then columns, of the Secret Santa matrix),
  as the index pairs handed to \<open>build_terms\<close>; a pair is satisfied when exactly one
  of its two variables is 1.
\<close>

definition exactly_one :: "(int \<Rightarrow> real) \<Rightarrow> int \<Rightarrow> int \<Rightarrow> bool" where
  "exactly_one x i j = ((x i = 1 \<and> x j = 0) \<or> (x i = 0 \<and> x j = 1))"

definition pairs :: "(int \<times> int) list" where
  "pairs = [(0, 1), (2, 3), (4, 5), (2, 4), (0, 5), (1, 3)]"

definition feasible :: "(int \<Rightarrow> real) \<Rightarrow> bool" where
  "feasible x = list_all (\<lambda>(i, j). exactly_one x i j) pairs"

section \<open>Secret Santa sample: the result interpreter\<close>

text \<open>
  The state \<open>print_results\<close> runs in: the dictionary object it is handed and the
  standard output. The dictionary is the solver's configuration, from string variable ids
  to integers, as an association list in the dictionary's iteration order (a dictionary
  has each key once). The output is the characters written so far.
\<close>

record pystate =
  config :: "(string \<times> int) list"
  stdout :: string

text \<open>Looking up a key that the table does not have raises \<open>KeyError\<close> with the key.\<close>

datatype error = KeyError string

text \<open>
  \<^verbatim>\<open>
  def print_results(config: dict):
      result = {
                  '0': 'Vincent buys Tess a gift and writes her a poem.',
                  '1': 'Vincent buys Uma a gift and writes her a poem.',
                  '2': 'Tess buys Vincent a gift and writes him a poem.',
                  '3': 'Tess buys Uma a gift and writes her a poem.',
                  '4': 'Uma buys Vincent a gift and writes him a poem.',
                  '5': 'Uma buys Tess a gift and writes her a poem.'}

      for key, val in config.items():
          if val == 1:
              print(result[key])
  \<close>
\<close>

definition result :: "(string \<times> string) list" where
  "result =
     [(''0'', ''Vincent buys Tess a gift and writes her a poem.''),
      (''1'', ''Vincent buys Uma a gift and writes her a poem.''),
      (''2'', ''Tess buys Vincent a gift and writes him a poem.''),
      (''3'', ''Tess buys Uma a gift and writes her a poem.''),
      (''4'', ''Uma buys Vincent a gift and writes him a poem.''),
      (''5'', ''Uma buys Tess a gift and writes her a poem.'')]"

text \<open>\<open>print\<close> writes its argument and a newline to the standard output.\<close>

definition py_print :: "string \<Rightarrow> pystate \<Rightarrow> pystate" where
  "py_print line s = s\<lparr>stdout := stdout s @ line @ [CHR 10]\<rparr>"

text \<open>
  The loop over \<open>config.items()\<close>, on the items still to visit. The exception leaves the
  loop with the output written so far; the dictionary is only read.
\<close>

fun print_results_loop :: "(string \<times> int) list \<Rightarrow> pystate \<Rightarrow> pystate \<times> error option" where
  "print_results_loop [] s = (s, None)"
| "print_results_loop ((key, val) # items) s =
     (if val = 1 then
        (case map_of result key of
           None \<Rightarrow> (s, Some (KeyError key))
         | Some label \<Rightarrow> print_results_loop items (py_print label s))
      else print_results_loop items s)"

definition print_results :: "pystate \<Rightarrow> pystate \<times> error option" where
  "print_results s = print_results_loop (config s) s"


text \<open>The notions the properties of \<open>print_results\<close> are stated with.\<close>

definition keys :: "string set" where
  "keys = {''0'', ''1'', ''2'', ''3'', ''4'', ''5''}"

text \<open>The keys whose value is 1, in iteration order.\<close>

definition selected :: "(string \<times> int) list \<Rightarrow> string list" where
  "selected items = map fst (filter (\<lambda>(key, val). val = 1) items)"

text \<open>The line printed for a key of the table: its label and a newline.\<close>

definition line_of :: "string \<Rightarrow> string" where
  "line_of key = (case map_of result key of None \<Rightarrow> [] | Some label \<Rightarrow> label @ [CHR 10])"

text \<open>The number of lines of an output is the number of its newlines.\<close>

definition line_count :: "string \<Rightarrow> nat" where
  "line_count out = length (filter (\<lambda>ch. ch = CHR 10) out)"

text \<open>What was written between an earlier state and a later one.\<close>

definition printed :: "pystate \<Rightarrow> pystate \<Rightarrow> string" where
  "printed s s' = drop (length (stdout s)) (stdout s')"

text \<open>
  The rows of the Secret Santa matrix (Vincent \<open>x0 x1\<close>, Tess \<open>x2 x3\<close>, Uma \<open>x4 x5\<close>), one
  per person; a configuration has one variable per row when, in each row, exactly one of
  the two keys has value 1.
\<close>

definition rows :: "(string \<times> string) list" where
  "rows = [(''0'', ''1''), (''2'', ''3''), (''4'', ''5'')]"

definition one_per_row :: "(string \<times> int) list \<Rightarrow> bool" where
  "one_per_row items =
     list_all (\<lambda>(a, b). (map_of items a = Some 1) \<noteq> (map_of items b = Some 1)) rows"

section \<open>The term builder as a run of the interpreter\<close>

text \<open>
  A computation of the notebook: from the interpreter's state it gives a value or the
  exception it raised, and the state it leaves.
\<close>

type_synonym 'a run = "pystate \<Rightarrow> (error + 'a) \<times> pystate"

definition return_run :: "'a \<Rightarrow> 'a run" where
  "return_run v s = (Inr v, s)"

text \<open>Sequencing: an exception of the first computation ends the run where it was raised.\<close>

definition then_run :: "'a run \<Rightarrow> ('a \<Rightarrow> 'b run) \<Rightarrow> 'b run" where
  "then_run m f s = (case m s of (Inl e, s') \<Rightarrow> (Inl e, s') | (Inr v, s') \<Rightarrow> f v s')"

text \<open>
  Modelled from the spec: the constructor of the SDK's class \<open>Term\<close>, which the notebook
  calls and does not define. The spec's Term is a coefficient and a collection of indices,
  and index bounds are checked nowhere: the constructor stores its two arguments as they
  are, raises nothing and leaves the state alone.
\<close>

definition Term_init :: "real \<Rightarrow> int list \<Rightarrow> Term run" where
  "Term_init a ks s = (Inr \<lparr>c = a, indices = ks\<rparr>, s)"

text \<open>
  One statement \<^verbatim>\<open>terms.append(Term(c = a, indices = ks))\<close> of \<open>build_terms\<close>, with
  the constructor as a parameter: the constructor runs first, and the list grows only if
  it returns.
\<close>

definition append_Term ::
  "(real \<Rightarrow> int list \<Rightarrow> Term run) \<Rightarrow> Term list \<Rightarrow> real \<Rightarrow> int list \<Rightarrow> Term list run" where
  "append_Term mk ts a ks = then_run (mk a ks) (\<lambda>t. return_run (ts @ [t]))"

text \<open>
  The body of \<open>build_terms\<close> statement by statement, over any constructor: the empty
  list, the six appends in the order of the source, the return. There is no other
  statement: no test of \<open>i\<close> or \<open>j\<close>, no \<open>raise\<close>, no \<open>print\<close>.
\<close>

definition build_terms_run ::
  "(real \<Rightarrow> int list \<Rightarrow> Term run) \<Rightarrow> int \<Rightarrow> int \<Rightarrow> Term list run" where
  "build_terms_run mk i j =
     then_run (return_run []) (\<lambda>ts.
     then_run (append_Term mk ts 1 [i, i]) (\<lambda>ts.
     then_run (append_Term mk ts 1 [j, j]) (\<lambda>ts.
     then_run (append_Term mk ts 2 [i, j]) (\<lambda>ts.
     then_run (append_Term mk ts (- 2) [i]) (\<lambda>ts.
     then_run (append_Term mk ts (- 2) [j]) (\<lambda>ts.
     then_run (append_Term mk ts 1 []) (\<lambda>ts.
     return_run ts)))))))"

text \<open>A constructor that always returns and never changes the state.\<close>

definition pure_init :: "(real \<Rightarrow> int list \<Rightarrow> Term run) \<Rightarrow> bool" where
  "pure_init mk = (\<forall>a ks s. \<exists>t. mk a ks s = (Inr t, s))"

section \<open>The XOR penalty\<close>

lemma build_terms_list:
  "build_terms i j =
     [\<lparr>c = 1, indices = [i, i]\<rparr>, \<lparr>c = 1, indices = [j, j]\<rparr>, \<lparr>c = 2, indices = [i, j]\<rparr>,
      \<lparr>c = - 2, indices = [i]\<rparr>, \<lparr>c = - 2, indices = [j]\<rparr>, \<lparr>c = 1, indices = []\<rparr>]"
  by (simp add: build_terms_def)

lemma eval_build_terms:
  "eval_terms x (build_terms i j) = (x i + x j - 1)\<^sup>2"
  by (simp add: build_terms_list eval_terms_def eval_term_def power2_eq_square algebra_simps)

lemma eval_terms_append:
  "eval_terms x (ts @ us) = eval_terms x ts + eval_terms x us"
  by (simp add: eval_terms_def)

text \<open>
  C1. For integers \<open>i \<noteq> j\<close>, \<open>build_terms i j\<close> is a list of exactly six Terms, with
  coefficients 1, 1, 2, -2, -2, 1 on the index lists \<open>[i, i]\<close>, \<open>[j, j]\<close>, \<open>[i, j]\<close>,
  \<open>[i]\<close>, \<open>[j]\<close>, \<open>[]\<close> in this order, and these are the monomials of the expansion
  of \<open>(x\<^sub>i + x\<^sub>j - 1)\<^sup>2\<close>: the list evaluates to that square at every assignment.
\<close>

theorem build_terms_six_terms:
  assumes "i \<noteq> j"
  shows "length (build_terms i j) = 6
    \<and> map c (build_terms i j) = [1, 1, 2, - 2, - 2, 1]
    \<and> map indices (build_terms i j) = [[i, i], [j, j], [i, j], [i], [j], []]
    \<and> (\<forall>x. eval_terms x (build_terms i j) = (x i + x j - 1)\<^sup>2)"
proof -
  have "\<forall>x. eval_terms x (build_terms i j) = (x i + x j - 1)\<^sup>2"
    by (simp add: eval_build_terms)
  moreover have "length (build_terms i j) = 6"
    and "map c (build_terms i j) = [1, 1, 2, - 2, - 2, 1]"
    and "map indices (build_terms i j) = [[i, i], [j, j], [i, j], [i], [j], []]"
    by (simp_all add: build_terms_list)
  ultimately show ?thesis by blast
qed

theorem build_terms_six_terms_witness:
  "(0::int) \<noteq> 1
    \<and> build_terms 0 1 =
        [\<lparr>c = 1, indices = [0, 0]\<rparr>, \<lparr>c = 1, indices = [1, 1]\<rparr>, \<lparr>c = 2, indices = [0, 1]\<rparr>,
         \<lparr>c = - 2, indices = [0]\<rparr>, \<lparr>c = - 2, indices = [1]\<rparr>, \<lparr>c = 1, indices = []\<rparr>]
    \<and> length (build_terms 0 1) = 6
    \<and> map c (build_terms 0 1) = [1, 1, 2, - 2, - 2, 1]
    \<and> map indices (build_terms 0 1) = [[0, 0], [1, 1], [0, 1], [0], [1], []]"
  using build_terms_six_terms [of 0 1] by (simp add: build_terms_def)

text \<open>
  C2. For integers \<open>i \<noteq> j\<close>, the polynomial of \<open>build_terms i j\<close> takes the values
  1, 0, 0, 1 at \<open>(x\<^sub>i, x\<^sub>j) = (0,0), (0,1), (1,0), (1,1)\<close>.
\<close>

theorem build_terms_truth_table:
  assumes "i \<noteq> j"
  shows "eval_terms (x(i := 0, j := 0)) (build_terms i j) = 1
    \<and> eval_terms (x(i := 0, j := 1)) (build_terms i j) = 0
    \<and> eval_terms (x(i := 1, j := 0)) (build_terms i j) = 0
    \<and> eval_terms (x(i := 1, j := 1)) (build_terms i j) = 1"
  using assms by (simp add: eval_build_terms)

theorem build_terms_truth_table_witness:
  "(2::int) \<noteq> 4
    \<and> eval_terms ((\<lambda>k. 0)(2 := 0, 4 := 0)) (build_terms 2 4) = 1
    \<and> eval_terms ((\<lambda>k. 0)(2 := 0, 4 := 1)) (build_terms 2 4) = 0
    \<and> eval_terms ((\<lambda>k. 0)(2 := 1, 4 := 0)) (build_terms 2 4) = 0
    \<and> eval_terms ((\<lambda>k. 0)(2 := 1, 4 := 1)) (build_terms 2 4) = 1"
  using build_terms_truth_table [of 2 4 "\<lambda>k. 0"] by simp

section \<open>The assembled objective\<close>

lemma terms_pairs: "terms = concat (map (\<lambda>(i, j). build_terms i j) pairs)"
  by (simp add: terms_def pairs_def)

lemma eval_terms_objective:
  "eval_terms x terms =
     (x 0 + x 1 - 1)\<^sup>2 + (x 2 + x 3 - 1)\<^sup>2 + (x 4 + x 5 - 1)\<^sup>2
       + (x 2 + x 4 - 1)\<^sup>2 + (x 0 + x 5 - 1)\<^sup>2 + (x 1 + x 3 - 1)\<^sup>2"
  by (simp add: terms_def eval_terms_append eval_build_terms)

lemma penalty_binary:
  assumes "binary x i" "binary x j"
  shows "(x i + x j - 1)\<^sup>2 = (if exactly_one x i j then 0 else 1)"
  using assms by (auto simp: binary_def exactly_one_def)

text \<open>
  C3. At every assignment that is binary on the variables 0 to 5, the assembled objective
  is 0 when each of the six constraint pairs has exactly one of its variables at 1, and
  strictly positive otherwise.
\<close>

theorem objective_zero_iff_feasible:
  assumes "\<forall>k\<in>{0..5}. binary x k"
  shows "(feasible x \<longrightarrow> eval_terms x terms = 0)
    \<and> (\<not> feasible x \<longrightarrow> 0 < eval_terms x terms)"
proof -
  have b: "binary x 0" "binary x 1" "binary x 2" "binary x 3" "binary x 4" "binary x 5"
    using assms by simp_all
  show ?thesis
    by (simp add: eval_terms_objective penalty_binary b feasible_def pairs_def)
qed

theorem objective_zero_iff_feasible_witness:
  "list_all (binary (\<lambda>k. if k \<in> {0, 3, 4} then 1 else 0)) [0, 1, 2, 3, 4, 5]
    \<and> feasible (\<lambda>k. if k \<in> {0, 3, 4} then 1 else 0)
    \<and> eval_terms (\<lambda>k. if k \<in> {0, 3, 4} then 1 else 0) terms = 0
    \<and> list_all (binary (\<lambda>k. 0)) [0, 1, 2, 3, 4, 5]
    \<and> \<not> feasible (\<lambda>k. 0)
    \<and> 0 < eval_terms (\<lambda>k. 0) terms"
  using objective_zero_iff_feasible [of "\<lambda>k. if k \<in> {0, 3, 4} then 1 else 0"]
    objective_zero_iff_feasible [of "\<lambda>k. 0"]
  by (simp add: binary_def feasible_def pairs_def exactly_one_def)

text \<open>
  C4. The assembled list has exactly 36 Terms, and every variable index that any of them
  mentions lies in the range from 0 (included) to 6 (excluded).
\<close>

theorem terms_count_and_indices:
  "length terms = 36 \<and> set (concat (map indices terms)) \<subseteq> {0..<6}"
  by (simp add: terms_def build_terms_list)

section \<open>Totality and symmetry of the term builder\<close>

lemma append_Term_ok:
  "mk a ks s = (Inr t, s') \<Longrightarrow> append_Term mk ts a ks s = (Inr (ts @ [t]), s')"
  by (simp add: append_Term_def then_run_def return_run_def)

lemma then_run_ok: "m s = (Inr v, s') \<Longrightarrow> then_run m f s = f v s'"
  by (simp add: then_run_def)

lemma build_terms_run_Term_init:
  "build_terms_run Term_init i j s = (Inr (build_terms i j), s)"
  by (simp add: build_terms_run_def build_terms_def append_Term_def then_run_def
      return_run_def Term_init_def)

lemma build_terms_run_pure:
  assumes "pure_init mk"
  shows "\<exists>ts. build_terms_run mk i j s = (Inr ts, s) \<and> length ts = 6"
proof -
  have ex: "\<And>a ks. \<exists>t. mk a ks s = (Inr t, s)"
    using assms by (simp add: pure_init_def)
  obtain t1 where t1: "mk 1 [i, i] s = (Inr t1, s)" using ex by blast
  obtain t2 where t2: "mk 1 [j, j] s = (Inr t2, s)" using ex by blast
  obtain t3 where t3: "mk 2 [i, j] s = (Inr t3, s)" using ex by blast
  obtain t4 where t4: "mk (- 2) [i] s = (Inr t4, s)" using ex by blast
  obtain t5 where t5: "mk (- 2) [j] s = (Inr t5, s)" using ex by blast
  obtain t6 where t6: "mk 1 [] s = (Inr t6, s)" using ex by blast
  have "build_terms_run mk i j s = (Inr [t1, t2, t3, t4, t5, t6], s)"
    by (simp add: build_terms_run_def then_run_ok [OF append_Term_ok] t1 t2 t3 t4 t5 t6
        then_run_ok [of "return_run []" s "[]" s] return_run_def)
  then show ?thesis by simp
qed

text \<open>
  C8. \<open>build_terms\<close> returns normally at all integers \<open>i\<close> and \<open>j\<close>, negative, out of
  the problem's range or equal: run from any state, it returns its list of six Terms,
  raises no exception and leaves the state (the output, the configuration) as it found
  it, and the indices go into the Terms as they were given, unchecked. The same holds over
  any constructor of Terms that itself always returns and changes nothing: the body adds
  no failure and no effect of its own.
\<close>

theorem build_terms_total:
  "build_terms_run Term_init i j s = (Inr (build_terms i j), s)
    \<and> length (build_terms i j) = 6
    \<and> set (concat (map indices (build_terms i j))) = {i, j}
    \<and> (pure_init mk \<longrightarrow> (\<exists>ts. build_terms_run mk i j s = (Inr ts, s) \<and> length ts = 6))"
proof -
  have "length (build_terms i j) = 6"
    and "set (concat (map indices (build_terms i j))) = {i, j}"
    by (auto simp add: build_terms_list)
  then show ?thesis
    using build_terms_run_Term_init build_terms_run_pure by blast
qed

theorem build_terms_total_witness:
  "pure_init Term_init
    \<and> build_terms_run Term_init (- 1) (- 1) \<lparr>config = [(''0'', 1)], stdout = ''Terms''\<rparr>
      = (Inr [\<lparr>c = 1, indices = [- 1, - 1]\<rparr>, \<lparr>c = 1, indices = [- 1, - 1]\<rparr>,
              \<lparr>c = 2, indices = [- 1, - 1]\<rparr>, \<lparr>c = - 2, indices = [- 1]\<rparr>,
              \<lparr>c = - 2, indices = [- 1]\<rparr>, \<lparr>c = 1, indices = []\<rparr>],
         \<lparr>config = [(''0'', 1)], stdout = ''Terms''\<rparr>)
    \<and> (\<exists>ts. build_terms_run Term_init (- 7) 1000 \<lparr>config = [], stdout = []\<rparr>
          = (Inr ts, \<lparr>config = [], stdout = []\<rparr>) \<and> length ts = 6)"
proof -
  have p: "pure_init Term_init"
    by (simp add: pure_init_def Term_init_def)
  show ?thesis
    using p build_terms_total [of "- 1" "- 1" "\<lparr>config = [(''0'', 1)], stdout = ''Terms''\<rparr>"]
      build_terms_total [of "- 7" 1000 "\<lparr>config = [], stdout = []\<rparr>" Term_init]
    by (simp add: build_terms_list)
qed

lemma eval_term_perm:
  assumes "mset (indices t) = mset (indices u)" "c t = c u"
  shows "eval_term x t = eval_term x u"
proof -
  have "prod_list (map x (indices t)) = prod_mset (image_mset x (mset (indices t)))"
    by (metis mset_map prod_mset_prod_list)
  also have "\<dots> = prod_list (map x (indices u))"
    by (metis assms(1) mset_map prod_mset_prod_list)
  finally show ?thesis by (simp add: eval_term_def assms(2))
qed

text \<open>
  C9. The value of a Term does not depend on the order of its indices, and
  \<open>build_terms i j\<close> and \<open>build_terms j i\<close> are the same polynomial: they have the
  same value at every assignment, binary or not, for all integers \<open>i\<close> and \<open>j\<close>.
\<close>

theorem build_terms_symmetric:
  "eval_terms x (build_terms i j) = eval_terms x (build_terms j i)
    \<and> (mset ks = mset ls \<longrightarrow>
         eval_term x \<lparr>c = a, indices = ks\<rparr> = eval_term x \<lparr>c = a, indices = ls\<rparr>)"
  by (simp add: eval_build_terms add.commute eval_term_perm)

theorem build_terms_symmetric_witness:
  "eval_terms (\<lambda>k. if k = 2 then 1 else 0) (build_terms 2 3)
      = eval_terms (\<lambda>k. if k = 2 then 1 else 0) (build_terms 3 2)
    \<and> mset [2, 3, 3 :: int] = mset [3, 2, 3]
    \<and> eval_term (\<lambda>k. if k = 2 then 1 else 0) \<lparr>c = 2, indices = [2, 3, 3]\<rparr>
      = eval_term (\<lambda>k. if k = 2 then 1 else 0) \<lparr>c = 2, indices = [3, 2, 3]\<rparr>"
  using build_terms_symmetric [of "\<lambda>k. if k = 2 then 1 else 0" 2 3 "[2, 3, 3]" "[3, 2, 3]" 2]
  by simp

section \<open>The result interpreter\<close>

lemma result_None: "(map_of result key = None) = (key \<notin> keys)"
  by (simp add: result_def keys_def)

lemma dom_result: "dom (map_of result) = keys"
  using result_None by (auto simp: dom_def)

lemma print_results_loop_char:
  "print_results_loop items s =
     (s\<lparr>stdout := stdout s @ concat (map line_of (takeWhile (\<lambda>k. k \<in> keys) (selected items)))\<rparr>,
      case dropWhile (\<lambda>k. k \<in> keys) (selected items) of
        [] \<Rightarrow> None | k # _ \<Rightarrow> Some (KeyError k))"
proof (induction items arbitrary: s)
  case Nil
  then show ?case by (simp add: selected_def)
next
  case (Cons item items)
  obtain key val where item: "item = (key, val)" by (cases item)
  show ?case
  proof (cases "val = 1")
    case False
    then show ?thesis by (simp add: item Cons.IH selected_def)
  next
    case True
    show ?thesis
    proof (cases "map_of result key")
      case None
      then have "key \<notin> keys" by (simp add: result_None)
      then show ?thesis using True None by (simp add: item selected_def)
    next
      case (Some label)
      then have "key \<in> keys" using result_None [of key] by simp
      then show ?thesis using True Some
        by (simp add: item Cons.IH selected_def py_print_def line_of_def)
    qed
  qed
qed

lemma selected_all_keys:
  assumes "fst ` set items \<subseteq> keys"
  shows "takeWhile (\<lambda>k. k \<in> keys) (selected items) = selected items"
    and "dropWhile (\<lambda>k. k \<in> keys) (selected items) = []"
proof -
  have "\<forall>k\<in>set (selected items). k \<in> keys"
    using assms by (auto simp: selected_def)
  then show "takeWhile (\<lambda>k. k \<in> keys) (selected items) = selected items"
    and "dropWhile (\<lambda>k. k \<in> keys) (selected items) = []"
    by (simp_all add: takeWhile_eq_all_conv)
qed

text \<open>
  C5. For every configuration whose keys all lie among \<open>'0'\<close> to \<open>'5'\<close>,
  \<open>print_results\<close> writes the label of each key whose value is 1, in iteration order,
  and nothing else, raises no error and leaves the configuration as it was. Nothing checks
  feasibility: an all-zero configuration prints no line, and one with both variables of a
  row at 1 prints both labels.
\<close>

theorem print_results_no_validation:
  assumes "fst ` set (config s) \<subseteq> keys"
  shows "print_results s =
    (s\<lparr>stdout := stdout s @ concat (map line_of (selected (config s)))\<rparr>, None)"
  by (simp add: print_results_def print_results_loop_char selected_all_keys [OF assms])

theorem print_results_no_validation_witness:
  "fst ` set [(''0'', 0), (''1'', 0), (''2'', 0), (''3'', 0), (''4'', 0), (''5'', 0 :: int)] \<subseteq> keys
    \<and> print_results
        \<lparr>config = [(''0'', 0), (''1'', 0), (''2'', 0), (''3'', 0), (''4'', 0), (''5'', 0)],
         stdout = []\<rparr>
      = (\<lparr>config = [(''0'', 0), (''1'', 0), (''2'', 0), (''3'', 0), (''4'', 0), (''5'', 0)],
          stdout = []\<rparr>, None)
    \<and> fst ` set [(''0'', 1), (''1'', 1), (''2'', 0), (''3'', 0), (''4'', 0), (''5'', 0 :: int)] \<subseteq> keys
    \<and> print_results
        \<lparr>config = [(''0'', 1), (''1'', 1), (''2'', 0), (''3'', 0), (''4'', 0), (''5'', 0)],
         stdout = []\<rparr>
      = (\<lparr>config = [(''0'', 1), (''1'', 1), (''2'', 0), (''3'', 0), (''4'', 0), (''5'', 0)],
          stdout = ''Vincent buys Tess a gift and writes her a poem.'' @ [CHR 10]
            @ ''Vincent buys Uma a gift and writes her a poem.'' @ [CHR 10]\<rparr>, None)"
  using print_results_no_validation
      [of "\<lparr>config = [(''0'', 0), (''1'', 0), (''2'', 0), (''3'', 0), (''4'', 0), (''5'', 0)],
            stdout = []\<rparr>"]
    print_results_no_validation
      [of "\<lparr>config = [(''0'', 1), (''1'', 1), (''2'', 0), (''3'', 0), (''4'', 0), (''5'', 0)],
            stdout = []\<rparr>"]
  by (simp add: keys_def selected_def line_of_def result_def)

lemma line_count_append: "line_count (xs @ ys) = line_count xs + line_count ys"
  by (simp add: line_count_def)

lemma line_count_line_of: "k \<in> keys \<Longrightarrow> line_count (line_of k) = 1"
  by (auto simp: keys_def line_of_def result_def line_count_def)

lemma line_count_lines:
  "set ks \<subseteq> keys \<Longrightarrow> line_count (concat (map line_of ks)) = length ks"
  by (induction ks) (simp_all add: line_count_append line_count_line_of, simp add: line_count_def)

lemma printed_append: "stdout s' = stdout s @ out \<Longrightarrow> printed s s' = out"
  by (simp add: printed_def)

lemma set_selected:
  assumes "distinct (map fst items)"
  shows "set (selected items) = {k. map_of items k = Some 1}"
  using assms by (force simp: selected_def)

lemma distinct_selected: "distinct (map fst items) \<Longrightarrow> distinct (selected items)"
  by (simp add: selected_def distinct_map_filter)

lemma card_one_per_row:
  assumes "one_per_row items" "dom (map_of items) = keys"
  shows "card {k. map_of items k = Some 1} = 3"
proof -
  have "{k. map_of items k = Some 1} = {k \<in> keys. map_of items k = Some 1}"
    using assms(2) by auto
  also have "\<dots> =
      (if map_of items ''0'' = Some 1 then {''0''} else {''1''})
      \<union> (if map_of items ''2'' = Some 1 then {''2''} else {''3''})
      \<union> (if map_of items ''4'' = Some 1 then {''4''} else {''5''})"
    using assms(1) by (auto simp: keys_def one_per_row_def rows_def)
  also have "card \<dots> = 3" by simp
  finally show ?thesis .
qed

text \<open>
  C6. For every configuration whose keys are exactly \<open>'0'\<close> to \<open>'5'\<close> and in which
  exactly one variable of each row of the matrix has value 1, \<open>print_results\<close> prints
  as many lines as there are rows, that is 3, and raises no error.
\<close>

theorem print_results_one_line_per_row:
  assumes "distinct (map fst (config s))" "fst ` set (config s) = keys"
    and "one_per_row (config s)"
  shows "line_count (printed s (fst (print_results s))) = length rows
    \<and> length rows = 3 \<and> snd (print_results s) = None"
proof -
  have sub: "fst ` set (config s) \<subseteq> keys" using assms(2) by simp
  have "dom (map_of (config s)) = keys"
    using assms(2) by (simp add: dom_map_of_conv_image_fst)
  then have "card {k. map_of (config s) k = Some 1} = 3"
    using assms(3) by (rule card_one_per_row [rotated])
  then have len: "length (selected (config s)) = 3"
    using assms(1) by (metis distinct_card distinct_selected set_selected)
  have "set (selected (config s)) \<subseteq> keys"
    using sub by (auto simp: selected_def)
  then have "line_count (concat (map line_of (selected (config s)))) = 3"
    using len by (simp add: line_count_lines)
  moreover have "printed s (fst (print_results s)) = concat (map line_of (selected (config s)))"
    by (simp add: print_results_def print_results_loop_char selected_all_keys [OF sub] printed_def)
  moreover have "snd (print_results s) = None"
    by (simp add: print_results_def print_results_loop_char selected_all_keys [OF sub])
  ultimately show ?thesis by (simp add: rows_def)
qed

theorem print_results_one_line_per_row_witness:
  "distinct (map fst [(''3'', 1), (''0'', 0), (''1'', 1), (''5'', 0), (''4'', 1), (''2'', 0 :: int)])
    \<and> fst ` set [(''3'', 1), (''0'', 0), (''1'', 1), (''5'', 0), (''4'', 1), (''2'', 0 :: int)] = keys
    \<and> one_per_row [(''3'', 1), (''0'', 0), (''1'', 1), (''5'', 0), (''4'', 1), (''2'', 0)]
    \<and> line_count (printed
          \<lparr>config = [(''3'', 1), (''0'', 0), (''1'', 1), (''5'', 0), (''4'', 1), (''2'', 0)],
           stdout = ''Human-readable solution:'' @ [CHR 10]\<rparr>
          (fst (print_results
            \<lparr>config = [(''3'', 1), (''0'', 0), (''1'', 1), (''5'', 0), (''4'', 1), (''2'', 0)],
             stdout = ''Human-readable solution:'' @ [CHR 10]\<rparr>))) = 3
    \<and> stdout (fst (print_results
          \<lparr>config = [(''3'', 1), (''0'', 0), (''1'', 1), (''5'', 0), (''4'', 1), (''2'', 0)],
           stdout = ''Human-readable solution:'' @ [CHR 10]\<rparr>))
      = ''Human-readable solution:'' @ [CHR 10]
        @ ''Tess buys Uma a gift and writes her a poem.'' @ [CHR 10]
        @ ''Vincent buys Uma a gift and writes her a poem.'' @ [CHR 10]
        @ ''Uma buys Vincent a gift and writes him a poem.'' @ [CHR 10]"
proof -
  let ?s = "\<lparr>config = [(''3'', 1), (''0'', 0), (''1'', 1), (''5'', 0), (''4'', 1), (''2'', 0)],
             stdout = ''Human-readable solution:'' @ [CHR 10]\<rparr>"
  have d: "distinct (map fst (config ?s))" by simp
  have k: "fst ` set (config ?s) = keys" by (auto simp: keys_def)
  have r: "one_per_row (config ?s)" by (simp add: one_per_row_def rows_def)
  have out: "stdout (fst (print_results ?s))
      = ''Human-readable solution:'' @ [CHR 10]
        @ ''Tess buys Uma a gift and writes her a poem.'' @ [CHR 10]
        @ ''Vincent buys Uma a gift and writes her a poem.'' @ [CHR 10]
        @ ''Uma buys Vincent a gift and writes him a poem.'' @ [CHR 10]"
    by (simp add: print_results_def result_def py_print_def)
  show ?thesis
    using print_results_one_line_per_row [OF d k r] d k r out by (simp add: rows_def)
qed

text \<open>
  C7. \<open>print_results\<close> is deterministic and keeps no state: run twice in a row from any
  state, both runs leave the configuration unchanged, append the same characters to the
  output and end the same way; and what a run appends and how it ends depend on the
  configuration only, not on what was written before.
\<close>

theorem print_results_deterministic:
  "(case print_results s of (s1, e1) \<Rightarrow>
      (case print_results s1 of (s2, e2) \<Rightarrow>
         config s1 = config s \<and> config s2 = config s
         \<and> stdout s1 = stdout s @ printed s s1
         \<and> stdout s2 = stdout s1 @ printed s1 s2
         \<and> printed s1 s2 = printed s s1
         \<and> e2 = e1))
    \<and> (config t = config s \<longrightarrow>
          printed t (fst (print_results t)) = printed s (fst (print_results s))
          \<and> snd (print_results t) = snd (print_results s))"
  by (simp add: print_results_def print_results_loop_char printed_def)

theorem print_results_deterministic_witness:
  "print_results \<lparr>config = [(''2'', 1), (''1'', 1)], stdout = []\<rparr>
      = (\<lparr>config = [(''2'', 1), (''1'', 1)],
          stdout = ''Tess buys Vincent a gift and writes him a poem.'' @ [CHR 10]
            @ ''Vincent buys Uma a gift and writes her a poem.'' @ [CHR 10]\<rparr>, None)
    \<and> config \<lparr>config = [(''2'', 1), (''1'', 1)], stdout = ''Human-readable solution:''\<rparr>
      = config \<lparr>config = [(''2'', 1), (''1'', 1)], stdout = []\<rparr>
    \<and> printed \<lparr>config = [(''2'', 1), (''1'', 1)], stdout = ''Human-readable solution:''\<rparr>
        (fst (print_results \<lparr>config = [(''2'', 1), (''1'', 1)], stdout = ''Human-readable solution:''\<rparr>))
      = ''Tess buys Vincent a gift and writes him a poem.'' @ [CHR 10]
            @ ''Vincent buys Uma a gift and writes her a poem.'' @ [CHR 10]"
  using print_results_deterministic
      [of "\<lparr>config = [(''2'', 1), (''1'', 1)], stdout = []\<rparr>"
          "\<lparr>config = [(''2'', 1), (''1'', 1)], stdout = ''Human-readable solution:''\<rparr>"]
  by (simp add: print_results_def result_def py_print_def printed_def)

lemma first_missing_None:
  "((case ks of [] \<Rightarrow> None | k # _ \<Rightarrow> Some (KeyError k)) \<noteq> None) = (ks \<noteq> [])"
  by (cases ks) simp_all

text \<open>
  C10. \<open>print_results\<close> ends with a \<open>KeyError\<close> exactly when some key of the
  configuration has value 1 and is not one of \<open>'0'\<close> to \<open>'5'\<close>. Items whose value is
  not 1 are skipped whatever their key: the run is the run on the items of value 1 alone.
  Items are visited in iteration order: the output is the lines of the keys of value 1
  that come before the first one missing from the table, and the error carries that key.
\<close>

theorem print_results_key_error:
  "(snd (print_results s) \<noteq> None) = (\<exists>(key, val) \<in> set (config s). val = 1 \<and> key \<notin> keys)
    \<and> print_results_loop (filter (\<lambda>(key, val). val = 1) (config s)) s = print_results s
    \<and> stdout (fst (print_results s))
        = stdout s @ concat (map line_of (takeWhile (\<lambda>k. k \<in> keys) (selected (config s))))
    \<and> snd (print_results s)
        = (case dropWhile (\<lambda>k. k \<in> keys) (selected (config s)) of
             [] \<Rightarrow> None | k # _ \<Rightarrow> Some (KeyError k))"
proof -
  have "(dropWhile (\<lambda>k. k \<in> keys) (selected (config s)) \<noteq> [])
      = (\<exists>(key, val) \<in> set (config s). val = 1 \<and> key \<notin> keys)"
    by (auto simp: dropWhile_eq_Nil_conv selected_def)
  moreover have "(snd (print_results s) \<noteq> None)
      = (dropWhile (\<lambda>k. k \<in> keys) (selected (config s)) \<noteq> [])"
    unfolding print_results_def print_results_loop_char snd_conv
    by (rule first_missing_None)
  ultimately have "(snd (print_results s) \<noteq> None)
      = (\<exists>(key, val) \<in> set (config s). val = 1 \<and> key \<notin> keys)"
    by simp
  moreover have "selected (filter (\<lambda>(key, val). val = 1) (config s)) = selected (config s)"
    by (simp add: selected_def)
  then have "print_results_loop (filter (\<lambda>(key, val). val = 1) (config s)) s = print_results s"
    by (simp add: print_results_def print_results_loop_char)
  ultimately show ?thesis
    by (simp add: print_results_def print_results_loop_char)
qed

theorem print_results_key_error_witness:
  "(\<exists>(key, val) \<in> set [(''0'', 1), (''9'', 0), (''3'', 1), (''7'', 1), (''5'', 1 :: int)].
        val = 1 \<and> key \<notin> keys)
    \<and> print_results
        \<lparr>config = [(''0'', 1), (''9'', 0), (''3'', 1), (''7'', 1), (''5'', 1)], stdout = []\<rparr>
      = (\<lparr>config = [(''0'', 1), (''9'', 0), (''3'', 1), (''7'', 1), (''5'', 1)],
          stdout = ''Vincent buys Tess a gift and writes her a poem.'' @ [CHR 10]
            @ ''Tess buys Uma a gift and writes her a poem.'' @ [CHR 10]\<rparr>,
         Some (KeyError ''7''))"
  using print_results_key_error
      [of "\<lparr>config = [(''0'', 1), (''9'', 0), (''3'', 1), (''7'', 1), (''5'', 1)], stdout = []\<rparr>"]
  by (simp add: print_results_def result_def py_print_def keys_def)

end
